theory Spec2Isabelle
  imports Complex_Main
begin

section \<open>The Nexa inference gateway (nexa/gguf/server/nexa\_service.py)\<close>

text \<open>
  The service keeps one loaded model in module-level globals and forwards HTTP requests to
  it. The wrapped engines (llama.cpp, stable diffusion, whisper) are outside the
  repository: they enter the model as functions stored in the handle, and the ambient
  facilities (uuid, clock, JSON printing, string formatting) as fields of an environment
  record. Python floats are only passed through, never computed with, and are modelled
  as \<open>real\<close>.
\<close>

subsection \<open>Exceptions\<close>

datatype exn =
    ValueError string
  | AttributeError string
  | TypeError string
  | UnboundLocalError string
  | ValidationError string
  | KeyError string
  | OSError string
  | RuntimeError string

text \<open>\<open>str(e)\<close>: the message of the exception.\<close>

fun str_exn :: "exn \<Rightarrow> string" where
  "str_exn (ValueError m) = m"
| "str_exn (AttributeError m) = m"
| "str_exn (TypeError m) = m"
| "str_exn (UnboundLocalError m) = m"
| "str_exn (ValidationError m) = m"
| "str_exn (KeyError m) = [CHR 0x27] @ m @ [CHR 0x27]"
| "str_exn (OSError m) = m"
| "str_exn (RuntimeError m) = m"

text \<open>
  What leaves a handler other than a returned value: an \<open>HTTPException\<close> raised on
  purpose (the framework turns it into a structured error response with that status), or
  any other exception, which escapes the handler uncaught.
\<close>

datatype raised = HTTPException nat string | Uncaught exn

text \<open>Truthiness of an \<open>Optional[bool]\<close> and of an optional string.\<close>

fun truthy :: "bool option \<Rightarrow> bool" where
  "truthy None = False"
| "truthy (Some b) = b"

fun truthy_str :: "string option \<Rightarrow> bool" where
  "truthy_str None = False"
| "truthy_str (Some s) = (s \<noteq> [])"

subsection \<open>Requests\<close>

record GenerationRequest =
  prompt :: string
  temperature :: real
  max_new_tokens :: int
  top_k :: int
  top_p :: real
  stop_words :: "string list option"
  logprobs :: "bool option"
  top_logprobs :: "int option"
  stream :: "bool option"

record Message =
  role :: string
  content :: string

record ChatCompletionRequest =
  chat_messages :: "Message list"
  chat_max_tokens :: "int option"
  chat_temperature :: "real option"
  chat_stream :: "bool option"
  chat_stop_words :: "string list option"
  chat_logprobs :: "bool option"
  chat_top_logprobs :: "int option"

subsection \<open>Engine chunks\<close>

text \<open>
  A log-probability record is a dict from field names (tokens, token\_logprobs,
  top\_logprobs, text\_offset) to lists; it is kept as an association list in insertion
  order. The entry \<open>"logprobs"\<close> of a choice is missing, \<open>None\<close>, or such a record.
\<close>

type_synonym 'v lp_dict = "(string \<times> 'v list) list"

datatype 'v lp_entry = Missing | Null | Fields "'v lp_dict"

text \<open>
  \<open>chunk["choices"][0]\<close> of a chat chunk carries a \<open>delta\<close> whose \<open>content\<close> may be
  absent; that of a completion chunk carries \<open>text\<close>.
\<close>

record 'v chat_chunk =
  delta_content :: "string option"
  delta_logprobs :: "'v lp_entry"

record 'v text_chunk =
  chunk_text :: string
  chunk_logprobs :: "'v lp_entry"

record chat_kwargs =
  kw_messages :: "Message list"
  kw_temperature :: real
  kw_max_tokens :: int
  kw_top_k :: int
  kw_top_p :: real
  kw_stream :: bool
  kw_stop :: "string list option"
  kw_logprobs :: "bool option"
  kw_top_logprobs :: "int option"

record completion_kwargs =
  ck_prompt :: string
  ck_temperature :: real
  ck_max_tokens :: int
  ck_top_k :: int
  ck_top_p :: real
  ck_stream :: bool
  ck_stop :: "string list option"
  ck_logprobs :: "bool option"
  ck_top_logprobs :: "int option"

record transcribe_kwargs =
  tk_beam_size :: "int option"
  tk_language :: "string option"
  tk_task :: string
  tk_temperature :: "real option"
  tk_vad_filter :: bool

subsection \<open>The model handle\<close>

text \<open>
  The global \<open>model\<close> is a \<open>Llama\<close>, a \<open>StableDiffusion\<close> or a \<open>WhisperModel\<close>.
  Only \<open>Llama\<close> has the attributes \<open>create_chat_completion\<close>, \<open>create_completion\<close>
  and \<open>metadata\<close>; only \<open>WhisperModel\<close> has \<open>transcribe\<close>. A producer returned by
  the engine is a finite list of chunks; creating it may raise. For \<open>transcribe\<close> the
  result is the list of segment texts, or the exception raised by the call or while the
  segments are consumed.
\<close>

datatype 'v handle =
    Llama
      (llama_chat: "chat_kwargs \<Rightarrow> exn + 'v chat_chunk list")
      (llama_completion: "completion_kwargs \<Rightarrow> exn + 'v text_chunk list")
      (llama_metadata: "string \<Rightarrow> string option")
  | StableDiffusion
  | WhisperModel
      (whisper_transcribe: "string \<Rightarrow> transcribe_kwargs \<Rightarrow> exn + string list")

fun class_name :: "'v handle \<Rightarrow> string" where
  "class_name (Llama _ _ _) = ''Llama''"
| "class_name StableDiffusion = ''StableDiffusion''"
| "class_name (WhisperModel _) = ''WhisperModel''"

definition no_attribute :: "string \<Rightarrow> string \<Rightarrow> exn" where
  "no_attribute cls attr =
     AttributeError ([CHR 0x27] @ cls @ [CHR 0x27] @ '' object has no attribute ''
                     @ [CHR 0x27] @ attr @ [CHR 0x27])"

fun create_chat_completion ::
  "'v handle \<Rightarrow> chat_kwargs \<Rightarrow> exn + 'v chat_chunk list" where
  "create_chat_completion (Llama chat _ _) params = chat params"
| "create_chat_completion h params =
     Inl (no_attribute (class_name h) ''create_chat_completion'')"

fun create_completion ::
  "'v handle \<Rightarrow> completion_kwargs \<Rightarrow> exn + 'v text_chunk list" where
  "create_completion (Llama _ completion _) params = completion params"
| "create_completion h params =
     Inl (no_attribute (class_name h) ''create_completion'')"

fun transcribe ::
  "'v handle option \<Rightarrow> string \<Rightarrow> transcribe_kwargs \<Rightarrow> exn + string list" where
  "transcribe None path params = Inl (no_attribute ''NoneType'' ''transcribe'')"
| "transcribe (Some (WhisperModel f)) path params = f path params"
| "transcribe (Some h) path params = Inl (no_attribute (class_name h) ''transcribe'')"

subsection \<open>Globals and environment\<close>

record 'v globals =
  model :: "'v handle option"
  chat_format :: "string option"
  completion_template :: "string option"
  model_path :: string
  n_ctx :: "int option"
  is_local_path :: bool
  model_type :: string
  is_huggingface :: bool
  projector_path :: string

text \<open>What \<open>for token in streamer\<close> yields: an engine chunk, or a key of a dict.\<close>

datatype 'v stream_item = Chunk "'v chat_chunk" | Key string

record 'v sse_chunk =
  sse_id :: string
  sse_object :: string
  sse_created :: real
  sse_content :: "'v stream_item"

text \<open>
  \<open>uuid4\<close> is \<open>str(uuid.uuid4())\<close> of the one call a request makes, \<open>clock k\<close> the value
  of the \<open>k\<close>-th call of \<open>time.time()\<close>, \<open>json_dumps\<close> is \<open>json.dumps\<close> on the chunk
  dict, \<open>format_input t p\<close> is \<open>t.format(input=p)\<close>, \<open>validation_message\<close> the text of
  a pydantic validation error for the named fields.
\<close>

record 'v env =
  uuid4 :: string
  clock :: "nat \<Rightarrow> real"
  json_dumps :: "'v sse_chunk \<Rightarrow> string"
  format_input :: "string \<Rightarrow> string \<Rightarrow> string"
  validation_message :: "string list \<Rightarrow> string"

definition chat_completion_system_prompt :: "Message list" where
  "chat_completion_system_prompt =
     [\<lparr>role = ''system'', content = ''You are a helpful assistant''\<rparr>]"

subsection \<open>Text generation\<close>

text \<open>
  The inner loop \<open>for key in logprobs_or_none: if key in c: logprobs_or_none[key].extend(c[key])\<close>.
\<close>

definition extend_fields :: "'v lp_dict \<Rightarrow> 'v lp_dict \<Rightarrow> 'v lp_dict" where
  "extend_fields acc c =
     map (\<lambda>(key, xs). (key, case map_of c key of None \<Rightarrow> xs | Some ys \<Rightarrow> xs @ ys)) acc"

text \<open>
  One pass of the body \<open>if logprobs and "logprobs" in choice: ...\<close>. When the
  accumulated record has a key and the chunk's entry is \<open>None\<close>, the test
  \<open>key in None\<close> raises a TypeError.
\<close>

definition accumulate_logprobs ::
  "bool option \<Rightarrow> 'v lp_dict option \<Rightarrow> 'v lp_entry \<Rightarrow> exn + 'v lp_dict option" where
  "accumulate_logprobs flag logprobs_or_none entry =
     (if truthy flag \<and> entry \<noteq> Missing then
        (case logprobs_or_none of
           None \<Rightarrow> (case entry of Fields d \<Rightarrow> Inr (Some d) | _ \<Rightarrow> Inr None)
         | Some acc \<Rightarrow>
             (case entry of
                Fields d \<Rightarrow> Inr (Some (extend_fields acc d))
              | _ \<Rightarrow> if acc = [] then Inr (Some acc)
                     else Inl (TypeError ''argument of type 'NoneType' is not iterable'')))
      else Inr logprobs_or_none)"

fun drain_chat ::
  "bool option \<Rightarrow> 'v chat_chunk list \<Rightarrow> string \<Rightarrow> 'v lp_dict option
   \<Rightarrow> exn + (string \<times> 'v lp_dict option)" where
  "drain_chat flag [] generated_text logprobs_or_none = Inr (generated_text, logprobs_or_none)"
| "drain_chat flag (chunk # rest) generated_text logprobs_or_none =
     (let generated_text' =
            (case delta_content chunk of None \<Rightarrow> generated_text
             | Some s \<Rightarrow> generated_text @ s)
      in case accumulate_logprobs flag logprobs_or_none (delta_logprobs chunk) of
           Inl e \<Rightarrow> Inl e
         | Inr lp \<Rightarrow> drain_chat flag rest generated_text' lp)"

fun drain_completion ::
  "bool option \<Rightarrow> 'v text_chunk list \<Rightarrow> string \<Rightarrow> 'v lp_dict option
   \<Rightarrow> exn + (string \<times> 'v lp_dict option)" where
  "drain_completion flag [] generated_text logprobs_or_none =
     Inr (generated_text, logprobs_or_none)"
| "drain_completion flag (chunk # rest) generated_text logprobs_or_none =
     (case accumulate_logprobs flag logprobs_or_none (chunk_logprobs chunk) of
        Inl e \<Rightarrow> Inl e
      | Inr lp \<Rightarrow> drain_completion flag rest (generated_text @ chunk_text chunk) lp)"

text \<open>
  The function returns the engine's producer (chat branch with \<open>stream\<close>) or the dict
  \<open>{"result": ..., "logprobs": ...}\<close>.
\<close>

datatype 'v generation =
    Streamer "'v chat_chunk list"
  | Result (result: string) (result_logprobs: "'v lp_dict option")

definition user_messages :: "'v globals \<Rightarrow> string \<Rightarrow> Message list" where
  "user_messages g p =
     (if is_local_path g \<or> is_huggingface g then [\<lparr>role = ''user'', content = p\<rparr>]
      else chat_completion_system_prompt @ [\<lparr>role = ''user'', content = p\<rparr>])"

definition chat_params :: "'v globals \<Rightarrow> GenerationRequest \<Rightarrow> chat_kwargs" where
  "chat_params g kw =
     \<lparr>kw_messages = user_messages g (prompt kw), kw_temperature = temperature kw,
      kw_max_tokens = max_new_tokens kw, kw_top_k = top_k kw, kw_top_p = top_p kw,
      kw_stream = True, kw_stop = stop_words kw, kw_logprobs = logprobs kw,
      kw_top_logprobs = top_logprobs kw\<rparr>"

definition formatted_prompt :: "'v env \<Rightarrow> 'v globals \<Rightarrow> string \<Rightarrow> string" where
  "formatted_prompt e g p =
     (case completion_template g of
        None \<Rightarrow> p
      | Some t \<Rightarrow> if t \<noteq> [] then format_input e t p else p)"

definition completion_params ::
  "'v env \<Rightarrow> 'v globals \<Rightarrow> GenerationRequest \<Rightarrow> completion_kwargs" where
  "completion_params e g kw =
     \<lparr>ck_prompt = formatted_prompt e g (prompt kw), ck_temperature = temperature kw,
      ck_max_tokens = max_new_tokens kw, ck_top_k = top_k kw, ck_top_p = top_p kw,
      ck_stream = True, ck_stop = stop_words kw, ck_logprobs = logprobs kw,
      ck_top_logprobs = top_logprobs kw\<rparr>"

definition nexa_run_text_generation ::
  "'v env \<Rightarrow> 'v globals \<Rightarrow> GenerationRequest \<Rightarrow> exn + 'v generation" where
  "nexa_run_text_generation e g kw =
     (case model g of
        None \<Rightarrow>
          Inl (ValueError ''Model is not loaded. Please check the model path and try again.'')
      | Some m \<Rightarrow>
          if truthy_str (chat_format g) then
            (case create_chat_completion m (chat_params g kw) of
               Inl x \<Rightarrow> Inl x
             | Inr streamer \<Rightarrow>
                 if truthy (stream kw) then Inr (Streamer streamer)
                 else (case drain_chat (logprobs kw) streamer [] None of
                         Inl x \<Rightarrow> Inl x
                       | Inr (generated_text, lp) \<Rightarrow> Inr (Result generated_text lp)))
          else
            (case create_completion m (completion_params e g kw) of
               Inl x \<Rightarrow> Inl x
             | Inr streamer \<Rightarrow>
                 (case drain_completion (logprobs kw) streamer [] None of
                    Inl x \<Rightarrow> Inl x
                  | Inr (generated_text, lp) \<Rightarrow> Inr (Result generated_text lp))))"

subsection \<open>The streaming adapter\<close>

definition sentinel :: string where
  "sentinel = ''data: [DONE]'' @ [CHR 0x0A, CHR 0x0A]"

definition frame :: "'v env \<Rightarrow> nat \<Rightarrow> 'v stream_item \<Rightarrow> string" where
  "frame e k token =
     ''data: '' @ json_dumps e \<lparr>sse_id = uuid4 e, sse_object = ''chat.completion.chunk'',
                                sse_created = clock e k, sse_content = token\<rparr>
     @ [CHR 0x0A, CHR 0x0A]"

text \<open>The generator, from the \<open>k\<close>-th reading of the clock on.\<close>

fun resp_frames :: "'v env \<Rightarrow> nat \<Rightarrow> 'v stream_item list \<Rightarrow> string list" where
  "resp_frames e k [] = [sentinel]"
| "resp_frames e k (token # rest) = frame e k token # resp_frames e (Suc k) rest"

definition resp_async_generator :: "'v env \<Rightarrow> 'v stream_item list \<Rightarrow> string list" where
  "resp_async_generator e streamer = resp_frames e 0 streamer"

text \<open>
  Iterating what \<open>nexa_run_text_generation\<close> returned: the chunks of a producer, or
  the keys of the result dict.
\<close>

fun iterate :: "'v generation \<Rightarrow> 'v stream_item list" where
  "iterate (Streamer chunks) = map Chunk chunks"
| "iterate (Result _ _) = [Key ''result'', Key ''logprobs'']"

subsection \<open>Completion and chat endpoints\<close>

record 'v text_completion =
  tc_id :: string
  tc_object :: string
  tc_created :: int
  tc_model :: string
  tc_text :: string
  tc_index :: nat
  tc_logprobs :: "'v lp_dict option"
  tc_finish_reason :: string

record 'v chat_completion =
  cc_id :: string
  cc_object :: string
  cc_created :: real
  cc_message :: Message
  cc_logprobs :: "'v lp_dict option"

datatype 'v response =
    StreamingResponse "string list"
  | TextCompletion "'v text_completion"
  | ChatCompletion "'v chat_completion"
  | Transcript string

text \<open>A structured error with a status in the 4xx class.\<close>

definition client_error :: "raised + 'v response \<Rightarrow> bool" where
  "client_error r =
     (case r of Inl (HTTPException status _) \<Rightarrow> 400 \<le> status \<and> status < 500 | _ \<Rightarrow> False)"

definition not_subscriptable :: raised where
  "not_subscriptable =
     HTTPException 500 (str_exn (TypeError '''generator' object is not subscriptable''))"

text \<open>
  The body of the handler's \<open>try\<close> after the generation call, and its \<open>except\<close>
  clause: \<open>r\<close> is what \<open>nexa_run_text_generation\<close> returned or raised. In the
  non-streaming branch the handler subscripts the returned value with \<open>"result"\<close>,
  which a producer does not allow.
\<close>

definition text_reply ::
  "'v env \<Rightarrow> 'v globals \<Rightarrow> GenerationRequest \<Rightarrow> exn + 'v generation
   \<Rightarrow> raised + 'v response" where
  "text_reply e g request r =
     (case r of
        Inl x \<Rightarrow> Inl (HTTPException 500 (str_exn x))
      | Inr out \<Rightarrow>
          if truthy (stream request) then
            Inr (StreamingResponse (resp_async_generator e (iterate out)))
          else
            (case out of
               Result generated_text lp \<Rightarrow>
                 Inr (TextCompletion
                   \<lparr>tc_id = uuid4 e, tc_object = ''text_completion'',
                    tc_created = \<lfloor>clock e 0\<rfloor>, tc_model = model_path g,
                    tc_text = generated_text, tc_index = 0, tc_logprobs = lp,
                    tc_finish_reason = ''stop''\<rparr>)
             | Streamer _ \<Rightarrow> Inl not_subscriptable))"

definition generate_text ::
  "'v env \<Rightarrow> 'v globals \<Rightarrow> GenerationRequest \<Rightarrow> raised + 'v response" where
  "generate_text e g request =
     text_reply e g request (nexa_run_text_generation e g request)"

text \<open>
  \<open>GenerationRequest(prompt=..., temperature=..., max_new_tokens=..., ...)\<close> as the chat
  handler calls it: \<open>top_k\<close> and \<open>top_p\<close> take their defaults, and the two fields
  declared \<open>float\<close> and \<open>int\<close> refuse \<open>None\<close>.
\<close>

definition new_GenerationRequest ::
  "'v env \<Rightarrow> string \<Rightarrow> real option \<Rightarrow> int option \<Rightarrow> string list option \<Rightarrow> bool option
   \<Rightarrow> int option \<Rightarrow> bool option \<Rightarrow> exn + GenerationRequest" where
  "new_GenerationRequest e p t n stop lp top_lp s =
     (case (t, n) of
        (Some t', Some n') \<Rightarrow>
          Inr \<lparr>prompt = p, temperature = t', max_new_tokens = n', top_k = 50, top_p = 1,
               stop_words = stop, logprobs = lp, top_logprobs = top_lp, stream = s\<rparr>
      | _ \<Rightarrow>
          Inl (ValidationError (validation_message e
                 ((if t = None then [''temperature''] else [])
                  @ (if n = None then [''max_new_tokens''] else [])))))"

text \<open>Python's \<open>xs[i]\<close>, negative indices counting from the end.\<close>

datatype 'a indexed = IndexError | Item 'a

definition getitem :: "'a list \<Rightarrow> int \<Rightarrow> 'a indexed" where
  "getitem xs i =
     (let n = int (length xs); j = (if i < 0 then n + i else i)
      in if 0 \<le> j \<and> j < n then Item (xs ! nat j) else IndexError)"

definition chat_prompt :: "Message list \<Rightarrow> exn + string" where
  "chat_prompt msgs =
     (if length msgs = 0 then Inr ''''
      else (case getitem msgs (- 1) of
              IndexError \<Rightarrow> Inl (RuntimeError ''list index out of range'')
            | Item m \<Rightarrow> Inr (content m)))"

definition chat_generation_kwargs ::
  "'v env \<Rightarrow> ChatCompletionRequest \<Rightarrow> exn + GenerationRequest" where
  "chat_generation_kwargs e request =
     (case chat_prompt (chat_messages request) of
        Inl x \<Rightarrow> Inl x
      | Inr p \<Rightarrow>
          new_GenerationRequest e p (chat_temperature request) (chat_max_tokens request)
            (chat_stop_words request) (chat_logprobs request) (chat_top_logprobs request)
            (chat_stream request))"

definition chat_reply ::
  "'v env \<Rightarrow> ChatCompletionRequest \<Rightarrow> exn + 'v generation \<Rightarrow> raised + 'v response" where
  "chat_reply e request r =
     (case r of
        Inl x \<Rightarrow> Inl (HTTPException 500 (str_exn x))
      | Inr out \<Rightarrow>
          if truthy (chat_stream request) then
            Inr (StreamingResponse (resp_async_generator e (iterate out)))
          else
            (case out of
               Result generated_text lp \<Rightarrow>
                 Inr (ChatCompletion
                   \<lparr>cc_id = uuid4 e, cc_object = ''chat.completion'',
                    cc_created = clock e 0,
                    cc_message = \<lparr>role = ''assistant'', content = generated_text\<rparr>,
                    cc_logprobs = lp\<rparr>)
             | Streamer _ \<Rightarrow> Inl not_subscriptable))"

definition chat_completions ::
  "'v env \<Rightarrow> 'v globals \<Rightarrow> ChatCompletionRequest \<Rightarrow> raised + 'v response" where
  "chat_completions e g request =
     (case chat_generation_kwargs e request of
        Inl x \<Rightarrow> Inl (HTTPException 500 (str_exn x))
      | Inr generation_kwargs \<Rightarrow>
          chat_reply e request (nexa_run_text_generation e g generation_kwargs))"

subsection \<open>Loading the model\<close>




















subsection \<open>Audio endpoints\<close>

text \<open>
  The file system maps the paths that exist to their contents. An upload has a file name
  and the outcome of \<open>await file.read()\<close>. \<open>tmp_name\<close> is the random name the
  temporary file gets (its suffix apart), \<open>write_error\<close> what \<open>temp_audio.write\<close>
  raises, if anything, and \<open>splitext_ext\<close> is \<open>os.path.splitext(...)[1]\<close>.
\<close>

type_synonym fs = "string \<Rightarrow> string option"

record upload =
  filename :: string
  read_result :: "exn + string"

record staging =
  tmp_name :: string
  write_error :: "exn option"
  splitext_ext :: "string \<Rightarrow> string"

text \<open>
  The \<open>with tempfile.NamedTemporaryFile(delete=False, suffix=...)\<close> block: the file is
  created, the payload read and written, and only then is \<open>temp_audio_path\<close> bound.
  Leaving the block closes the file and, with \<open>delete=False\<close>, keeps it.
\<close>

definition stage_upload :: "staging \<Rightarrow> fs \<Rightarrow> upload \<Rightarrow> (exn + string) \<times> fs" where
  "stage_upload io files file =
     (let name = tmp_name io @ splitext_ext io (filename file);
          created = files(name \<mapsto> [])
      in case read_result file of
           Inl x \<Rightarrow> (Inl x, created)
         | Inr payload \<Rightarrow>
             (case write_error io of
                Some x \<Rightarrow> (Inl x, created)
              | None \<Rightarrow> (Inr name, files(name \<mapsto> payload))))"

definition unlink :: "fs \<Rightarrow> string \<Rightarrow> exn + fs" where
  "unlink files path =
     (if files path = None then Inl (OSError (''No such file or directory: '' @ path))
      else Inr (files(path := None)))"

text \<open>
  \<open>try: ... except Exception as e: raise HTTPException(500, prefix + str(e))\<close>
  \<open>finally: os.unlink(temp_audio_path)\<close>. An exception raised by the \<open>finally\<close>
  clause replaces the one in flight.
\<close>

definition audio_handler ::
  "string \<Rightarrow> transcribe_kwargs \<Rightarrow> 'v globals \<Rightarrow> staging \<Rightarrow> fs \<Rightarrow> upload
   \<Rightarrow> (raised + 'v response) \<times> fs" where
  "audio_handler prefix params g io files file =
     (case stage_upload io files file of
        (Inl x, files1) \<Rightarrow>
          (Inl (Uncaught (UnboundLocalError
             ''local variable 'temp_audio_path' referenced before assignment'')),
           files1)
      | (Inr temp_audio_path, files1) \<Rightarrow>
          (let outcome =
                 (case transcribe (model g) temp_audio_path params of
                    Inl x \<Rightarrow> Inl (HTTPException 500 (prefix @ str_exn x))
                  | Inr segments \<Rightarrow> Inr (Transcript (concat segments)))
           in case unlink files1 temp_audio_path of
                Inl x \<Rightarrow> (Inl (Uncaught x), files1)
              | Inr files2 \<Rightarrow> (outcome, files2)))"

definition transcribe_audio ::
  "'v globals \<Rightarrow> staging \<Rightarrow> fs \<Rightarrow> upload \<Rightarrow> int option \<Rightarrow> string option \<Rightarrow> real option
   \<Rightarrow> (raised + 'v response) \<times> fs" where
  "transcribe_audio g io files file beam_size language temp =
     audio_handler ''Error during transcription: ''
       \<lparr>tk_beam_size = beam_size, tk_language = language, tk_task = ''transcribe'',
        tk_temperature = temp, tk_vad_filter = True\<rparr>
       g io files file"

definition translate_audio ::
  "'v globals \<Rightarrow> staging \<Rightarrow> fs \<Rightarrow> upload \<Rightarrow> int option \<Rightarrow> real option
   \<Rightarrow> (raised + 'v response) \<times> fs" where
  "translate_audio g io files file beam_size temp =
     audio_handler ''Error during translation: ''
       \<lparr>tk_beam_size = beam_size, tk_language = None, tk_task = ''translate'',
        tk_temperature = temp, tk_vad_filter = True\<rparr>
       g io files file"

subsection \<open>The merge of log-probability records, as the specification words it\<close>

text \<open>
  The first record that occurs, each of its fields followed by the lists the later
  records hold under the same field name.
\<close>

fun records_of :: "'v lp_entry list \<Rightarrow> 'v lp_dict list" where
  "records_of [] = []"
| "records_of (Fields d # es) = d # records_of es"
| "records_of (_ # es) = records_of es"

definition field_of :: "'v lp_dict \<Rightarrow> string \<Rightarrow> 'v list" where
  "field_of d name = (case map_of d name of None \<Rightarrow> [] | Some ys \<Rightarrow> ys)"

definition merged_logprobs :: "'v lp_dict list \<Rightarrow> 'v lp_dict option" where
  "merged_logprobs records =
     (case records of
        [] \<Rightarrow> None
      | first # later \<Rightarrow>
          Some (map (\<lambda>(name, xs). (name, xs @ concat (map (\<lambda>d. field_of d name) later)))
                  first))"

subsection \<open>Concrete instances\<close>

text \<open>
  A stand-in environment whose \<open>json_dumps\<close> prints the content of the chunk only, and
  an engine that answers every call with the same chunks.
\<close>

definition show_content :: "nat sse_chunk \<Rightarrow> string" where
  "show_content c =
     (case sse_content c of
        Key k \<Rightarrow> k
      | Chunk ch \<Rightarrow> (case delta_content ch of None \<Rightarrow> [] | Some t \<Rightarrow> t))"

definition demo_env :: "nat env" where
  "demo_env =
     \<lparr>uuid4 = ''u1'', clock = (\<lambda>k. real k), json_dumps = show_content,
      format_input = (\<lambda>t p. t @ p), validation_message = concat\<rparr>"

definition demo_text_chunks :: "nat text_chunk list" where
  "demo_text_chunks =
     [\<lparr>chunk_text = ''Hel'', chunk_logprobs = Fields [(''tokens'', [1])]\<rparr>,
      \<lparr>chunk_text = ''lo'', chunk_logprobs = Fields [(''tokens'', [2])]\<rparr>]"

definition demo_chat_chunks :: "nat chat_chunk list" where
  "demo_chat_chunks =
     [\<lparr>delta_content = None, delta_logprobs = Missing\<rparr>,
      \<lparr>delta_content = Some ''Hel'', delta_logprobs = Fields [(''tokens'', [1])]\<rparr>,
      \<lparr>delta_content = Some ''lo'', delta_logprobs = Fields [(''tokens'', [2])]\<rparr>]"

definition demo_llama :: "nat handle" where
  "demo_llama = Llama (\<lambda>_. Inr demo_chat_chunks) (\<lambda>_. Inr demo_text_chunks) (\<lambda>_. None)"

definition demo_globals :: "nat handle option \<Rightarrow> string option \<Rightarrow> nat globals" where
  "demo_globals m cf =
     \<lparr>model = m, chat_format = cf, completion_template = None, model_path = ''gemma'',
      n_ctx = Some 2048, is_local_path = False, model_type = ''NLP'',
      is_huggingface = False, projector_path = []\<rparr>"

definition demo_request :: "bool option \<Rightarrow> bool option \<Rightarrow> GenerationRequest" where
  "demo_request lp s =
     \<lparr>prompt = ''Hi'', temperature = 1, max_new_tokens = 128, top_k = 50, top_p = 1,
      stop_words = Some [], logprobs = lp, top_logprobs = Some 4, stream = s\<rparr>"

text \<open>
  An engine whose producers end, after the chunks with records, with a chunk whose
  \<open>logprobs\<close> is \<open>None\<close>.
\<close>

definition null_ending_text_chunks :: "nat text_chunk list" where
  "null_ending_text_chunks =
     demo_text_chunks @ [\<lparr>chunk_text = [], chunk_logprobs = Null\<rparr>]"

definition null_ending_chat_chunks :: "nat chat_chunk list" where
  "null_ending_chat_chunks =
     demo_chat_chunks @ [\<lparr>delta_content = None, delta_logprobs = Null\<rparr>]"

definition null_ending_llama :: "nat handle" where
  "null_ending_llama =
     Llama (\<lambda>_. Inr null_ending_chat_chunks) (\<lambda>_. Inr null_ending_text_chunks) (\<lambda>_. None)"

text \<open>An engine whose completion tells whether the sampling parameters it was given are
  all far outside any sensible range, and a request with such parameters.\<close>

definition echo_llama :: "nat handle" where
  "echo_llama =
     Llama (\<lambda>_. Inr [])
       (\<lambda>p. Inr [\<lparr>chunk_text =
                      (if ck_temperature p < 0 \<and> ck_max_tokens p < 0 \<and> ck_top_k p < 0
                          \<and> 1 < ck_top_p p
                       then ''out of range'' else ''in range''),
                    chunk_logprobs = Missing\<rparr>])
       (\<lambda>_. None)"

definition wild_request :: GenerationRequest where
  "wild_request =
     \<lparr>prompt = ''Hi'', temperature = - 1, max_new_tokens = - 10, top_k = - 5, top_p = 2,
      stop_words = Some [], logprobs = None, top_logprobs = Some 4, stream = None\<rparr>"






text \<open>
  An upload staged while the temporary directory has no space left, and a whisper model.
\<close>

definition demo_upload :: upload where
  "demo_upload = \<lparr>filename = ''a.wav'', read_result = Inr ''RIFF''\<rparr>"

definition full_disk :: staging where
  "full_disk =
     \<lparr>tmp_name = ''/tmp/tmpk3'', write_error = Some (OSError ''No space left on device''),
      splitext_ext = (\<lambda>_. ''.wav'')\<rparr>"

definition demo_whisper :: "nat handle" where
  "demo_whisper = WhisperModel (\<lambda>_ _. Inr [''hello'', '' world''])"

subsection \<open>Auxiliary notions for the proofs\<close>

text \<open>The text a chat chunk contributes, and the merge continued from an accumulator.\<close>

definition chunk_content :: "'v chat_chunk \<Rightarrow> string" where
  "chunk_content c = (case delta_content c of None \<Rightarrow> [] | Some s \<Rightarrow> s)"


definition carry :: "'v lp_dict option \<Rightarrow> 'v lp_dict list \<Rightarrow> 'v lp_dict option" where
  "carry acc rs =
     (case acc of None \<Rightarrow> merged_logprobs rs | Some a \<Rightarrow> merged_logprobs (a # rs))"

section \<open>Properties\<close>

subsection \<open>The streaming adapter\<close>



subsection \<open>The stream flag on the completion-template path\<close>




subsection \<open>The prompt of a chat completion\<close>








subsection \<open>Merging the log-probability records\<close>

lemma extend_fields_eq:
  "extend_fields acc d = map (\<lambda>(name, xs). (name, xs @ field_of d name)) acc"
  by (auto simp: extend_fields_def field_of_def split: option.splits)

lemma merged_extend:
  "merged_logprobs (extend_fields a d # rs) = merged_logprobs (a # d # rs)"
  by (simp add: merged_logprobs_def extend_fields_eq case_prod_unfold)

lemma accumulate_record:
  assumes "truthy flag" and "entry \<noteq> Null"
  shows "accumulate_logprobs flag acc entry =
           Inr (case entry of
                  Fields d \<Rightarrow> (case acc of None \<Rightarrow> Some d | Some a \<Rightarrow> Some (extend_fields a d))
                | _ \<Rightarrow> acc)"
  using assms by (cases entry; cases acc) (simp_all add: accumulate_logprobs_def)

lemma carry_step:
  assumes "entry \<noteq> Null"
  shows "carry (case entry of
                  Fields d \<Rightarrow> (case acc of None \<Rightarrow> Some d | Some a \<Rightarrow> Some (extend_fields a d))
                | _ \<Rightarrow> acc) (records_of es)
         = carry acc (records_of (entry # es))"
  using assms by (cases entry; cases acc) (simp_all add: carry_def merged_extend)

lemma drain_completion_merge:
  assumes "truthy flag" and "\<forall>c \<in> set cs. chunk_logprobs c \<noteq> Null"
  shows "drain_completion flag cs t acc =
           Inr (t @ concat (map chunk_text cs), carry acc (records_of (map chunk_logprobs cs)))"
  using assms(2)
proof (induction cs arbitrary: t acc)
  case Nil
  show ?case by (cases acc) (simp_all add: carry_def merged_logprobs_def)
next
  case (Cons c cs)
  then have ok: "chunk_logprobs c \<noteq> Null" and rest: "\<forall>c \<in> set cs. chunk_logprobs c \<noteq> Null"
    by simp_all
  show ?case
    by (simp add: accumulate_record [OF assms(1) ok] Cons.IH [OF rest] carry_step [OF ok])
qed

lemma drain_chat_merge:
  assumes "truthy flag" and "\<forall>c \<in> set cs. delta_logprobs c \<noteq> Null"
  shows "drain_chat flag cs t acc =
           Inr (t @ concat (map chunk_content cs), carry acc (records_of (map delta_logprobs cs)))"
  using assms(2)
proof (induction cs arbitrary: t acc)
  case Nil
  show ?case by (cases acc) (simp_all add: carry_def merged_logprobs_def)
next
  case (Cons c cs)
  then have ok: "delta_logprobs c \<noteq> Null" and rest: "\<forall>c \<in> set cs. delta_logprobs c \<noteq> Null"
    by simp_all
  show ?case
    by (simp add: accumulate_record [OF assms(1) ok] Cons.IH [OF rest] carry_step [OF ok]
                  chunk_content_def split: option.splits)
qed

text \<open>
  So on a producer none of whose chunks holds \<open>None\<close> under \<open>logprobs\<close>, both loops
  end with the merge the specification describes (\<open>carry None\<close> is \<open>merged_logprobs\<close>).
\<close>

lemma drains_refine_merge:
  assumes "truthy flag"
  shows "Null \<notin> set (map chunk_logprobs cs) \<Longrightarrow>
           drain_completion flag cs [] None =
             Inr (concat (map chunk_text cs),
                  merged_logprobs (records_of (map chunk_logprobs cs)))"
    and "Null \<notin> set (map delta_logprobs ds) \<Longrightarrow>
           drain_chat flag ds [] None =
             Inr (concat (map chunk_content ds),
                  merged_logprobs (records_of (map delta_logprobs ds)))"
proof -
  assume "Null \<notin> set (map chunk_logprobs cs)"
  then have "\<forall>c \<in> set cs. chunk_logprobs c \<noteq> Null" by (metis image_eqI set_map)
  from drain_completion_merge [OF assms this, of "[]" None]
  show "drain_completion flag cs [] None =
          Inr (concat (map chunk_text cs),
               merged_logprobs (records_of (map chunk_logprobs cs)))"
    by (simp add: carry_def)
next
  assume "Null \<notin> set (map delta_logprobs ds)"
  then have "\<forall>c \<in> set ds. delta_logprobs c \<noteq> Null" by (metis image_eqI set_map)
  from drain_chat_merge [OF assms this, of "[]" None]
  show "drain_chat flag ds [] None =
          Inr (concat (map chunk_content ds),
               merged_logprobs (records_of (map delta_logprobs ds)))"
    by (simp add: carry_def)
qed

text \<open>
  Claim C6 at a producer that ends, after two chunks with records, with a chunk whose
  \<open>logprobs\<close> is \<open>None\<close>: with the flag set and no streaming, the merge loop evaluates
  \<open>key in None\<close> and raises, on the completion-template branch and on the chat-format
  branch alike, so the request is answered with status 500 and no response object
  carries a merged record. The merge the specification describes exists for these
  chunks: the first record's \<open>tokens\<close> extended by the second's.
\<close>

theorem logprobs_merge_fails_on_none_chunk:
  "generate_text demo_env (demo_globals (Some null_ending_llama) None)
       (demo_request (Some True) (Some False))
     = Inl (HTTPException 500 ''argument of type 'NoneType' is not iterable'')
   \<and> generate_text demo_env (demo_globals (Some null_ending_llama) (Some ''chatml''))
       (demo_request (Some True) (Some False))
     = Inl (HTTPException 500 ''argument of type 'NoneType' is not iterable'')
   \<and> merged_logprobs (records_of (map chunk_logprobs null_ending_text_chunks))
     = Some [(''tokens'', [1, 2])]
   \<and> merged_logprobs (records_of (map delta_logprobs null_ending_chat_chunks))
     = Some [(''tokens'', [1, 2])]"
  by (simp add: generate_text_def text_reply_def nexa_run_text_generation_def
                demo_globals_def null_ending_llama_def demo_request_def
                null_ending_text_chunks_def null_ending_chat_chunks_def
                demo_text_chunks_def demo_chat_chunks_def
                accumulate_logprobs_def extend_fields_def merged_logprobs_def field_of_def)

subsection \<open>Streamed against drained\<close>

text \<open>
  On the chat-format branch the drained text is the concatenation of the contents of
  the chunks the streamed call hands to the adapter.
\<close>

lemma drain_chat_text:
  "drain_chat flag cs t0 acc = Inr (t1, lp1) \<Longrightarrow> t1 = t0 @ concat (map chunk_content cs)"
proof (induction cs arbitrary: t0 acc)
  case Nil
  then show ?case by simp
next
  case (Cons c cs)
  from Cons.prems obtain acc' where
    step: "drain_chat flag cs (t0 @ chunk_content c) acc' = Inr (t1, lp1)"
    by (auto simp: chunk_content_def split: sum.splits option.splits)
  from Cons.IH [OF step] show ?case by simp
qed

lemma chat_path_drained_is_streamed:
  assumes "truthy_str (chat_format g)"
      and "nexa_run_text_generation e g (kw\<lparr>stream := Some True\<rparr>) = Inr (Streamer chunks)"
      and "nexa_run_text_generation e g (kw\<lparr>stream := Some False\<rparr>) = Inr (Result t lp)"
  shows "t = concat (map chunk_content chunks)"
  using assms
  by (auto simp: nexa_run_text_generation_def chat_params_def
           split: option.splits sum.splits prod.splits dest: drain_chat_text)

lemma completion_stream_frames:
  assumes "\<not> truthy_str (chat_format g)" and "truthy (stream request)"
      and "nexa_run_text_generation e g request = Inr out"
  shows "generate_text e g request =
           Inr (StreamingResponse
                  [frame e 0 (Key ''result''), frame e 1 (Key ''logprobs''), sentinel])"
  using assms
  by (auto simp: generate_text_def text_reply_def nexa_run_text_generation_def
                 resp_async_generator_def
           split: option.splits sum.splits prod.splits)

text \<open>
  Claim C1 at a model with no chat format: the streamed request gets two frames whose
  contents are the keys \<open>result\<close> and \<open>logprobs\<close> of the result dict and then the
  sentinel, while the same request without the flag gets the text \<open>Hello\<close>.
\<close>

theorem completion_stream_emits_dict_keys:
  "generate_text demo_env (demo_globals (Some demo_llama) None) (demo_request None (Some True))
     = Inr (StreamingResponse
              [frame demo_env 0 (Key ''result''), frame demo_env 1 (Key ''logprobs''), sentinel])
   \<and> generate_text demo_env (demo_globals (Some demo_llama) None) (demo_request None (Some False))
     = Inr (TextCompletion
              \<lparr>tc_id = ''u1'', tc_object = ''text_completion'', tc_created = 0,
               tc_model = ''gemma'', tc_text = ''Hello'', tc_index = 0, tc_logprobs = None,
               tc_finish_reason = ''stop''\<rparr>)"
  by (simp add: generate_text_def text_reply_def nexa_run_text_generation_def
                resp_async_generator_def demo_globals_def demo_llama_def demo_request_def
                demo_env_def demo_text_chunks_def completion_params_def
                accumulate_logprobs_def)

subsection \<open>A text request against a handle of another kind\<close>

text \<open>
  Claim C2 fails at a whisper handle: the answer is a status 500 whose detail is the
  message of the attribute error, not an error of the 4xx class.
\<close>

theorem kind_mismatch_is_500_example:
  "generate_text demo_env (demo_globals (Some (WhisperModel (\<lambda>_ _. Inr []))) None)
       (demo_request None None)
     = Inl (HTTPException 500
              (str_exn (no_attribute ''WhisperModel'' ''create_completion'')))
   \<and> \<not> client_error
         (generate_text demo_env (demo_globals (Some (WhisperModel (\<lambda>_ _. Inr []))) None)
            (demo_request None None))"
  by (simp add: generate_text_def text_reply_def nexa_run_text_generation_def
                demo_globals_def client_error_def)

text \<open>
  Claim C2, as the code has it. A completion request while the loaded handle is a
  diffusion or an audio model is answered with \<open>HTTPException\<close> of status 500, whose
  detail names the generation method the handle lacks; the attribute error is caught in
  the handler and nothing else is raised. A chat completion request is answered with
  status 500 as well.
\<close>

theorem kind_mismatch_is_500:
  assumes "model g = Some h" and "h = StableDiffusion \<or> h = WhisperModel f"
  shows "generate_text e g request =
           Inl (HTTPException 500
                  (str_exn (no_attribute (class_name h)
                     (if truthy_str (chat_format g) then ''create_chat_completion''
                      else ''create_completion''))))
         \<and> (\<exists>detail. chat_completions e g chat_request = Inl (HTTPException 500 detail))"
proof -
  have run: "nexa_run_text_generation e g kw =
               Inl (no_attribute (class_name h)
                      (if truthy_str (chat_format g) then ''create_chat_completion''
                       else ''create_completion''))" for kw
    using assms by (auto simp: nexa_run_text_generation_def)
  have "\<exists>detail. chat_completions e g chat_request = Inl (HTTPException 500 detail)"
    by (cases "chat_generation_kwargs e chat_request")
       (simp_all add: chat_completions_def chat_reply_def run)
  then show ?thesis
    by (simp add: generate_text_def text_reply_def run)
qed

theorem kind_mismatch_is_500_witness:
  "model (demo_globals (Some StableDiffusion) None) = Some StableDiffusion
   \<and> generate_text demo_env (demo_globals (Some StableDiffusion) None)
         (demo_request None (Some True))
     = Inl (HTTPException 500
              (str_exn (no_attribute ''StableDiffusion'' ''create_completion'')))"
proof -
  have m: "model (demo_globals (Some StableDiffusion) None) = Some (StableDiffusion :: nat handle)"
    by (simp add: demo_globals_def)
  have k: "(StableDiffusion :: nat handle) = StableDiffusion \<or> StableDiffusion = WhisperModel f"
    for f
    by simp
  from kind_mismatch_is_500
         [OF m k, where e = demo_env and request = "demo_request None (Some True)"]
  show ?thesis using m by (simp add: demo_globals_def)
qed

subsection \<open>Sampling parameters\<close>

text \<open>
  Claim C7 fails at a request whose four sampling parameters are negative or, for
  \<open>top_p\<close>, above one: the engine is called with them and its completion is returned.
\<close>

theorem out_of_range_dispatched_example:
  "generate_text demo_env (demo_globals (Some echo_llama) None) wild_request
     = Inr (TextCompletion
              \<lparr>tc_id = ''u1'', tc_object = ''text_completion'', tc_created = 0,
               tc_model = ''gemma'', tc_text = ''out of range'', tc_index = 0,
               tc_logprobs = None, tc_finish_reason = ''stop''\<rparr>)"
  by (simp add: generate_text_def text_reply_def nexa_run_text_generation_def
                demo_globals_def echo_llama_def wild_request_def demo_env_def
                completion_params_def accumulate_logprobs_def)

text \<open>
  Claim C7, as the code has it. \<open>GenerationRequest\<close> declares no bounds and the handler
  checks none. With a text model loaded, the answer to any request is the reply to what
  the engine returns when called with the request's temperature, max tokens, top-k and
  top-p as they came (\<open>create_chat_completion\<close> when a chat format is set,
  \<open>create_completion\<close> otherwise): the generation's result, or status 500 with the
  message of what the engine or the draining raised. No error of the 4xx class is
  produced and no exception other than \<open>HTTPException\<close> leaves the handler.
\<close>

theorem no_bounds_on_sampling_parameters:
  assumes "model g = Some (Llama chat completion md)"
  shows "generate_text e g request =
           text_reply e g request
             (if truthy_str (chat_format g) then
                (case chat \<lparr>kw_messages = user_messages g (prompt request),
                             kw_temperature = temperature request,
                             kw_max_tokens = max_new_tokens request,
                             kw_top_k = top_k request, kw_top_p = top_p request,
                             kw_stream = True, kw_stop = stop_words request,
                             kw_logprobs = logprobs request,
                             kw_top_logprobs = top_logprobs request\<rparr> of
                   Inl x \<Rightarrow> Inl x
                 | Inr streamer \<Rightarrow>
                     if truthy (stream request) then Inr (Streamer streamer)
                     else (case drain_chat (logprobs request) streamer [] None of
                             Inl x \<Rightarrow> Inl x
                           | Inr (generated_text, lp) \<Rightarrow> Inr (Result generated_text lp)))
              else
                (case completion \<lparr>ck_prompt = formatted_prompt e g (prompt request),
                                   ck_temperature = temperature request,
                                   ck_max_tokens = max_new_tokens request,
                                   ck_top_k = top_k request, ck_top_p = top_p request,
                                   ck_stream = True, ck_stop = stop_words request,
                                   ck_logprobs = logprobs request,
                                   ck_top_logprobs = top_logprobs request\<rparr> of
                   Inl x \<Rightarrow> Inl x
                 | Inr streamer \<Rightarrow>
                     (case drain_completion (logprobs request) streamer [] None of
                        Inl x \<Rightarrow> Inl x
                      | Inr (generated_text, lp) \<Rightarrow> Inr (Result generated_text lp))))
         \<and> \<not> client_error (generate_text e g request)
         \<and> generate_text e g request \<noteq> Inl (Uncaught y)"
proof -
  have run: "nexa_run_text_generation e g request =
               (if truthy_str (chat_format g) then
                  (case chat (chat_params g request) of
                     Inl x \<Rightarrow> Inl x
                   | Inr streamer \<Rightarrow>
                       if truthy (stream request) then Inr (Streamer streamer)
                       else (case drain_chat (logprobs request) streamer [] None of
                               Inl x \<Rightarrow> Inl x
                             | Inr (generated_text, lp) \<Rightarrow> Inr (Result generated_text lp)))
                else
                  (case completion (completion_params e g request) of
                     Inl x \<Rightarrow> Inl x
                   | Inr streamer \<Rightarrow>
                       (case drain_completion (logprobs request) streamer [] None of
                          Inl x \<Rightarrow> Inl x
                        | Inr (generated_text, lp) \<Rightarrow> Inr (Result generated_text lp))))"
    using assms by (simp add: nexa_run_text_generation_def)
  have caught: "\<not> client_error (text_reply e g request r)
                \<and> text_reply e g request r \<noteq> Inl (Uncaught y)" for r
    by (auto simp: text_reply_def client_error_def not_subscriptable_def
             split: sum.splits generation.splits)
  show ?thesis
    unfolding generate_text_def
    using caught [of "nexa_run_text_generation e g request"]
    by (simp add: run chat_params_def completion_params_def)
qed

text \<open>
  At an engine whose completion depends on the parameters it is given: the answer to a
  request with all four parameters out of any range is the completion the engine gives
  for those very values, and with the defaults it is the other one.
\<close>

theorem no_bounds_on_sampling_parameters_witness:
  "model (demo_globals (Some echo_llama) None) = Some echo_llama
   \<and> generate_text demo_env (demo_globals (Some echo_llama) None)
         (wild_request\<lparr>stream := Some False\<rparr>)
     = Inr (TextCompletion
              \<lparr>tc_id = ''u1'', tc_object = ''text_completion'', tc_created = 0,
               tc_model = ''gemma'', tc_text = ''out of range'', tc_index = 0,
               tc_logprobs = None, tc_finish_reason = ''stop''\<rparr>)
   \<and> generate_text demo_env (demo_globals (Some echo_llama) None)
         (demo_request None (Some False))
     = Inr (TextCompletion
              \<lparr>tc_id = ''u1'', tc_object = ''text_completion'', tc_created = 0,
               tc_model = ''gemma'', tc_text = ''in range'', tc_index = 0,
               tc_logprobs = None, tc_finish_reason = ''stop''\<rparr>)"
proof -
  let ?g = "demo_globals (Some echo_llama) None"
  let ?completion =
    "\<lambda>p. Inr [\<lparr>chunk_text =
                   (if ck_temperature p < 0 \<and> ck_max_tokens p < 0 \<and> ck_top_k p < 0
                       \<and> 1 < ck_top_p p
                    then ''out of range'' else ''in range''),
                 chunk_logprobs = (Missing :: nat lp_entry)\<rparr>]"
  have m: "model ?g = Some (Llama (\<lambda>_. Inr []) ?completion (\<lambda>_. None))"
    by (simp add: demo_globals_def echo_llama_def)
  have m': "model ?g = Some echo_llama"
    by (simp add: demo_globals_def)
  have f: "\<not> truthy_str (chat_format ?g)"
    by (simp add: demo_globals_def)
  from no_bounds_on_sampling_parameters
         [OF m, where e = demo_env and request = "wild_request\<lparr>stream := Some False\<rparr>"]
  have wild: "generate_text demo_env ?g (wild_request\<lparr>stream := Some False\<rparr>)
              = Inr (TextCompletion
                       \<lparr>tc_id = ''u1'', tc_object = ''text_completion'', tc_created = 0,
                        tc_model = ''gemma'', tc_text = ''out of range'', tc_index = 0,
                        tc_logprobs = None, tc_finish_reason = ''stop''\<rparr>)"
    by (simp add: f wild_request_def text_reply_def accumulate_logprobs_def demo_env_def
                  demo_globals_def)
  from no_bounds_on_sampling_parameters
         [OF m, where e = demo_env and request = "demo_request None (Some False)"]
  have tame: "generate_text demo_env ?g (demo_request None (Some False))
              = Inr (TextCompletion
                       \<lparr>tc_id = ''u1'', tc_object = ''text_completion'', tc_created = 0,
                        tc_model = ''gemma'', tc_text = ''in range'', tc_index = 0,
                        tc_logprobs = None, tc_finish_reason = ''stop''\<rparr>)"
    by (simp add: f demo_request_def text_reply_def accumulate_logprobs_def demo_env_def
                  demo_globals_def)
  from m' wild tame show ?thesis by simp
qed

subsection \<open>Loading a text model: the fallback to the CPU\<close>











subsection \<open>The temporary audio file\<close>

text \<open>
  When the payload has been staged, the file is gone at the handler's exit, whether the
  engine returned segments or raised.
\<close>

lemma staged_file_removed:
  assumes "read_result file = Inr payload" and "write_error io = None"
  shows "snd (audio_handler prefix params g io files file)
           (tmp_name io @ splitext_ext io (filename file)) = None"
  using assms
  by (simp add: audio_handler_def stage_upload_def unlink_def Let_def)

text \<open>
  Claim C4 at an upload staged while the disk is full: \<open>temp_audio.write\<close> raises after
  the file was created and before \<open>temp_audio_path\<close> is bound, so the \<open>finally\<close>
  clause raises \<open>UnboundLocalError\<close> instead of removing the file: the file is still
  there when the handler exits, for transcription and for translation.
\<close>

theorem temp_file_left_when_staging_fails:
  "transcribe_audio (demo_globals (Some demo_whisper) None) full_disk Map.empty demo_upload
       (Some 5) None (Some 0)
     = (Inl (Uncaught (UnboundLocalError
               ''local variable 'temp_audio_path' referenced before assignment'')),
        [''/tmp/tmpk3.wav'' \<mapsto> []])
   \<and> translate_audio (demo_globals (Some demo_whisper) None) full_disk Map.empty demo_upload
       (Some 5) (Some 0)
     = (Inl (Uncaught (UnboundLocalError
               ''local variable 'temp_audio_path' referenced before assignment'')),
        [''/tmp/tmpk3.wav'' \<mapsto> []])"
  by (simp add: transcribe_audio_def translate_audio_def audio_handler_def stage_upload_def
                full_disk_def demo_upload_def Let_def)

end
